theory Spec2Isabelle
  imports Main
begin

section \<open>Converting AST to code: \<^verbatim>\<open>tensorflow/python/autograph/pyct/compiler.py\<close>\<close>

text \<open>
  The module has two functions. \<^verbatim>\<open>ast_to_source\<close> renders one node or a sequence of
  nodes with astor's \<^verbatim>\<open>SourceGenerator\<close> and strips the leading blank lines of the text;
  \<^verbatim>\<open>ast_to_object\<close> writes that text to a temporary file, loads the file as a module
  and optionally attaches a source map to the module's namespace.

  astor, gast, \<^verbatim>\<open>tempfile\<close>, \<^verbatim>\<open>imp\<close> and \<^verbatim>\<open>origin_info\<close> are not part of the module.
  They are parameters of the model, collected in the records \<open>renderer\<close> and
  \<open>runtime\<close> below; whatever they raise is a value of type \<open>exn\<close>.
\<close>

subsection \<open>Strings\<close>

text \<open>
  A Python string is a \<open>string\<close>. \<^verbatim>\<open>'\n'\<close> is the character 10. The whitespace that
  \<^verbatim>\<open>str.rstrip()\<close> removes is, for 7-bit characters, the set for which Python 3's
  \<^verbatim>\<open>str.isspace\<close> holds: 9 to 13, 28 to 31 and 32.
\<close>

definition newline :: char where
  "newline = CHR 0x0A"

definition isspace :: "char \<Rightarrow> bool" where
  "isspace c \<longleftrightarrow> c \<in> set [CHR 0x09, CHR 0x0A, CHR 0x0B, CHR 0x0C, CHR 0x0D,
                            CHR 0x1C, CHR 0x1D, CHR 0x1E, CHR 0x1F, CHR 0x20]"

text \<open>\<^verbatim>\<open>l.rstrip()\<close>: the string without its trailing whitespace.\<close>

definition rstrip :: "string \<Rightarrow> string" where
  "rstrip l = rev (dropWhile isspace (rev l))"

text \<open>
  \<^verbatim>\<open>code.split('\n')\<close>: the pieces between the newlines. The result is never empty:
  \<^verbatim>\<open>''.split('\n') == ['']\<close> and \<^verbatim>\<open>'a\n'.split('\n') == ['a', '']\<close>.
\<close>

fun split_nl :: "string \<Rightarrow> string list" where
  "split_nl [] = [[]]"
| "split_nl (c # cs) =
     (if c = newline then [] # split_nl cs
      else (case split_nl cs of
              [] \<Rightarrow> [[c]]
            | l # ls \<Rightarrow> (c # l) # ls))"

text \<open>\<^verbatim>\<open>'\n'.join(lines)\<close>.\<close>

fun join_nl :: "string list \<Rightarrow> string" where
  "join_nl [] = []"
| "join_nl [l] = l"
| "join_nl (l # m # ls) = l @ newline # join_nl (m # ls)"

subsection \<open>Exceptions\<close>

text \<open>
  \<open>Raised\<close> is an exception of one of the external collaborators, \<open>TypeError\<close>
  the iteration over an object that is not iterable, \<open>NameError\<close> the read of an unbound
  local variable, \<open>AssertionError\<close> a failed \<^verbatim>\<open>assert\<close> with its message.
\<close>

datatype exn = Raised string | TypeError string | NameError string | AssertionError string

subsection \<open>The arguments\<close>

text \<open>
  \<^verbatim>\<open>isinstance(node, (list, tuple))\<close> tells a sequence of nodes from a single node;
  lists and tuples are treated alike and both are \<open>Sequence\<close>. A node is a
  \<^verbatim>\<open>gast.AST\<close> or anything else (an \<^verbatim>\<open>ast.AST\<close>, as far as astor accepts it).
\<close>

datatype 'n py_arg = Single 'n | Sequence "'n list"

datatype ('g, 'a) node = Gast 'g | Ast 'a

text \<open>
  Lines 47--48 and 100--101:
  \<^verbatim>\<open>if not isinstance(node, (list, tuple)): node = (node,)\<close>.
\<close>

fun as_sequence :: "'n py_arg \<Rightarrow> 'n py_arg" where
  "as_sequence (Single n) = Sequence [n]"
| "as_sequence (Sequence ns) = Sequence ns"

text \<open>
  \<^verbatim>\<open>for n in node\<close> (line 52): a sequence gives its elements; a node is not iterable, and the
  loop over it raises.
\<close>

fun iterate :: "'n py_arg \<Rightarrow> exn + 'n list" where
  "iterate (Sequence ns) = Inr ns"
| "iterate (Single n) = Inl (TypeError ''object is not iterable'')"

subsection \<open>The source generator\<close>

text \<open>
  \<^verbatim>\<open>generator.result\<close> is a list of fragments. A fragment is a string or, in some
  versions of Python, a literal value; \<^verbatim>\<open>str\<close> turns either into text. The rest of
  the generator object (indentation level, pending newlines, ...) is \<open>hidden\<close>.
\<close>

datatype 'v fragment = Text string | Literal 'v

record ('s, 'v) SourceGenerator =
  hidden :: 's
  result :: "'v fragment list"

text \<open>
  What astor and gast provide:
  \<^item> \<open>gast_to_ast\<close>: \<^verbatim>\<open>gast.gast_to_ast\<close>;
  \<^item> \<open>generator_init\<close>: the hidden state of
    \<^verbatim>\<open>astor.codegen.SourceGenerator(indentation, False, astor.string_repr.pretty_string)\<close>,
    whose \<^verbatim>\<open>result\<close> is the empty list;
  \<^item> \<open>visit\<close>: \<^verbatim>\<open>generator.visit(n)\<close>, which mutates the generator or raises;
  \<^item> \<open>str_of\<close>: \<^verbatim>\<open>str\<close> on a literal value.
\<close>

record ('g, 'a, 's, 'v) renderer =
  gast_to_ast :: "'g \<Rightarrow> 'a"
  generator_init :: "string \<Rightarrow> 's"
  visit :: "'a \<Rightarrow> ('s, 'v) SourceGenerator \<Rightarrow> exn + ('s, 'v) SourceGenerator"
  str_of :: "'v \<Rightarrow> string"

fun py_str :: "('g, 'a, 's, 'v) renderer \<Rightarrow> 'v fragment \<Rightarrow> string" where
  "py_str r (Text s) = s"
| "py_str r (Literal v) = str_of r v"

subsection \<open>\<^verbatim>\<open>ast_to_source\<close>\<close>

text \<open>
  Lines 52--56, the loop over the nodes:
  \<^verbatim>\<open>
  for n in node:
    if isinstance(n, gast.AST):
      n = gast.gast_to_ast(n)
    generator.visit(n)
    generator.result.append('\n')
  \<close>
  An exception of \<^verbatim>\<open>visit\<close> ends the loop and the function.
\<close>

fun to_ast :: "('g, 'a, 's, 'v) renderer \<Rightarrow> ('g, 'a) node \<Rightarrow> 'a" where
  "to_ast r (Gast x) = gast_to_ast r x"
| "to_ast r (Ast a) = a"

definition append_newline :: "('s, 'v) SourceGenerator \<Rightarrow> ('s, 'v) SourceGenerator" where
  "append_newline g = g\<lparr>result := result g @ [Text [newline]]\<rparr>"

fun visit_nodes ::
  "('g, 'a, 's, 'v) renderer \<Rightarrow> ('g, 'a) node list \<Rightarrow> ('s, 'v) SourceGenerator
     \<Rightarrow> exn + ('s, 'v) SourceGenerator" where
  "visit_nodes r [] g = Inr g"
| "visit_nodes r (n # ns) g =
     (case visit r (to_ast r n) g of
        Inl e \<Rightarrow> Inl e
      | Inr g' \<Rightarrow> visit_nodes r ns (append_newline g'))"

text \<open>Line 60: \<^verbatim>\<open>code = ''.join(map(str, generator.result))\<close>.\<close>

definition code_of :: "('g, 'a, 's, 'v) renderer \<Rightarrow> ('s, 'v) SourceGenerator \<Rightarrow> string" where
  "code_of r g = concat (map (py_str r) (result g))"

text \<open>
  Lines 64--67, the loop that strips the leading blank lines:
  \<^verbatim>\<open>
  trimmed_code_lines = []
  for l in code_lines:
    if l.rstrip() or trimmed_code_lines:
      trimmed_code_lines.append(l)
  \<close>
\<close>

fun trim_loop :: "string list \<Rightarrow> string list \<Rightarrow> string list" where
  "trim_loop [] trimmed_code_lines = trimmed_code_lines"
| "trim_loop (l # ls) trimmed_code_lines =
     trim_loop ls
       (if rstrip l \<noteq> [] \<or> trimmed_code_lines \<noteq> []
        then trimmed_code_lines @ [l] else trimmed_code_lines)"

text \<open>Lines 63--68.\<close>

definition strip_leading_blank_lines :: "string \<Rightarrow> string" where
  "strip_leading_blank_lines code = join_nl (trim_loop (split_nl code) [])"

definition new_generator ::
  "('g, 'a, 's, 'v) renderer \<Rightarrow> string \<Rightarrow> ('s, 'v) SourceGenerator" where
  "new_generator r indentation = \<lparr>hidden = generator_init r indentation, result = []\<rparr>"

definition ast_to_source ::
  "('g, 'a, 's, 'v) renderer \<Rightarrow> ('g, 'a) node py_arg \<Rightarrow> string \<Rightarrow> exn + string" where
  "ast_to_source r node0 indentation =
     (let node = as_sequence node0;
          generator = new_generator r indentation
      in case iterate node of
           Inl e \<Rightarrow> Inl e
         | Inr ns \<Rightarrow>
             (case visit_nodes r ns generator of
                Inl e \<Rightarrow> Inl e
              | Inr generator' \<Rightarrow> Inr (strip_leading_blank_lines (code_of r generator'))))"

subsection \<open>The process state of \<^verbatim>\<open>ast_to_object\<close>\<close>

text \<open>
  \<^verbatim>\<open>ast_to_object\<close> acts on the file system, on the \<^verbatim>\<open>atexit\<close> registry and on the
  loaded modules. The state is a record of the three, passed through the function and
  returned with the result or the exception. \<open>files\<close> maps a file name to the text of the
  file; a write reaches the file at once (buffering is not modelled). \<open>atexit\<close> lists the
  files whose removal is registered. \<open>sys_modules\<close> holds the module objects by name, as
  \<^verbatim>\<open>sys.modules\<close> does once \<^verbatim>\<open>imp.load_source\<close> has returned. \<open>trace\<close> lists the actions
  of the function in the order in which it performs them; a call of a collaborator is
  listed when it is made, whatever its outcome.
\<close>

record 'v py_module =
  mod_name :: string
  mod_file :: string
  namespace :: "string \<rightharpoonup> 'v"

datatype ('g, 'a) event =
    Created string
  | Written string string
  | SourceMapCall "('g, 'a) node py_arg" string string "int list"
  | Closed string
  | AtexitRegistered string
  | LoadCall string string
  | Attached string string

record ('g, 'a, 'v) world =
  files :: "string \<rightharpoonup> string"
  atexit :: "string list"
  sys_modules :: "string \<rightharpoonup> 'v py_module"
  trace :: "('g, 'a) event list"

definition log :: "('g, 'a) event \<Rightarrow> ('g, 'a, 'v) world \<Rightarrow> ('g, 'a, 'v) world" where
  "log ev w = w\<lparr>trace := trace w @ [ev]\<rparr>"

text \<open>
  What the runtime provides:
  \<^item> \<open>debug\<close>: the constant \<^verbatim>\<open>__debug__\<close>, false when the interpreter runs with \<^verbatim>\<open>-O\<close>; an
    \<^verbatim>\<open>assert\<close> statement is executed only when it is true;
  \<^item> \<open>NamedTemporaryFile\<close>: the name that
    \<^verbatim>\<open>tempfile.NamedTemporaryFile(mode='w', suffix='.py', delete=False)\<close> gives the new
    file, chosen from the files that exist;
  \<^item> \<open>create_source_map\<close>: \<^verbatim>\<open>origin_info.create_source_map(nodes, source, f.name, indices)\<close>;
  \<^item> \<open>load_source\<close>: \<^verbatim>\<open>imp.load_source(module_name, f.name)\<close>, the namespace that
    results from executing the file. It reads the file system; the effects of the
    executed code on the state are not modelled.
\<close>

record ('g, 'a, 'v) runtime =
  debug :: bool
  NamedTemporaryFile :: "(string \<rightharpoonup> string) \<Rightarrow> exn + string"
  create_source_map ::
    "('g, 'a) node py_arg \<Rightarrow> string \<Rightarrow> string \<Rightarrow> int list \<Rightarrow> exn + 'v"
  load_source :: "string \<Rightarrow> string \<Rightarrow> (string \<rightharpoonup> string) \<Rightarrow> exn + (string \<rightharpoonup> 'v)"

text \<open>\<^verbatim>\<open>os.path.basename\<close> for POSIX paths: what follows the last slash.\<close>

definition basename :: "string \<Rightarrow> string" where
  "basename p = rev (takeWhile (\<lambda>c. c \<noteq> CHR ''/'') (rev p))"

text \<open>Line 109: \<^verbatim>\<open>module_name = os.path.basename(f.name[:-3])\<close>.\<close>

definition module_name_of :: "string \<Rightarrow> string" where
  "module_name_of f_name = basename (take (length f_name - 3) f_name)"

text \<open>\<^verbatim>\<open>range(a, b)\<close>.\<close>

definition py_range :: "int \<Rightarrow> int \<Rightarrow> int list" where
  "py_range a b = [a..b - 1]"

text \<open>
  Lines 112--115. \<^verbatim>\<open>nodes\<close> is the value that line 101 has normalised:
  \<^verbatim>\<open>
  if isinstance(nodes, (list, tuple)):
    indices = range(-len(nodes), 0)
  else:
    indices = (-1,)
  \<close>
\<close>

fun indices_of :: "'n py_arg \<Rightarrow> int list" where
  "indices_of (Sequence ns) = py_range (- int (length ns)) 0"
| "indices_of (Single n) = [- 1]"

text \<open>Line 131.\<close>

definition source_map_name :: string where
  "source_map_name = ''ag_source_map__''"

text \<open>
  \<^verbatim>\<open>'%s' % module\<close>, as CPython prints a module loaded from a file whose name and path
  have no quote and no backslash in them.
\<close>

definition module_repr :: "'v py_module \<Rightarrow> string" where
  "module_repr m = ''<module '' @ [CHR 0x27] @ mod_name m @ [CHR 0x27] @ '' from ''
                     @ [CHR 0x27] @ mod_file m @ [CHR 0x27] @ ''>''"

text \<open>Lines 133--134, the message of the assertion.\<close>

definition assertion_message :: "'v py_module \<Rightarrow> string" where
  "assertion_message compiled_nodes =
     ''cannot convert '' @ module_repr compiled_nodes
       @ '' because is has namespace attribute '' @ [CHR 0x22] @ source_map_name @ [CHR 0x22]
       @ '', which is reserved for AutoGraph.''"

text \<open>Lines 105--106: an empty prefix is false, as \<^verbatim>\<open>None\<close> is.\<close>

fun with_prefix :: "string option \<Rightarrow> string \<Rightarrow> string" where
  "with_prefix None source = source"
| "with_prefix (Some source_prefix) source =
     (if source_prefix \<noteq> [] then source_prefix @ [newline] @ source else source)"

text \<open>
  Lines 129--135. The check of lines 132--134 is an \<^verbatim>\<open>assert\<close> statement: it is executed
  when \<^verbatim>\<open>__debug__\<close> is true and compiled out otherwise, and then line 135 stores the
  source map whatever the namespace holds. The module is an object: the store into its
  \<^verbatim>\<open>__dict__\<close> is seen through \<^verbatim>\<open>sys.modules\<close> as well. \<open>source_map\<close> is \<open>None\<close> when line
  118 has not bound the variable.
\<close>

definition attach_source_map ::
  "bool \<Rightarrow> 'v py_module \<Rightarrow> 'v option \<Rightarrow> string \<Rightarrow> ('g, 'a, 'v) world
     \<Rightarrow> ('g, 'a, 'v) world \<times> (exn + 'v py_module \<times> string)" where
  "attach_source_map debug_on compiled_nodes source_map source w =
     (if debug_on \<and> namespace compiled_nodes source_map_name \<noteq> None
      then (w, Inl (AssertionError (assertion_message compiled_nodes)))
      else (case source_map of
              None \<Rightarrow> (w, Inl (NameError ''source_map''))
            | Some sm \<Rightarrow>
                (let compiled_nodes' =
                       compiled_nodes\<lparr>namespace := (namespace compiled_nodes)(source_map_name \<mapsto> sm)\<rparr>
                 in (log (Attached (mod_name compiled_nodes) source_map_name)
                       (w\<lparr>sys_modules := (sys_modules w)(mod_name compiled_nodes \<mapsto> compiled_nodes')\<rparr>),
                     Inr (compiled_nodes', source)))))"

text \<open>
  Lines 121--137: the registration of the removal, the load and the attachment.
\<close>

definition load_and_attach ::
  "('g, 'a, 'v) runtime \<Rightarrow> string \<Rightarrow> string \<Rightarrow> bool \<Rightarrow> bool \<Rightarrow> 'v option \<Rightarrow> string
     \<Rightarrow> ('g, 'a, 'v) world \<Rightarrow> ('g, 'a, 'v) world \<times> (exn + 'v py_module \<times> string)" where
  "load_and_attach rt module_name f_name include_source_map delete_on_exit source_map source w =
     (let w1 = (if delete_on_exit
                then log (AtexitRegistered f_name) (w\<lparr>atexit := atexit w @ [f_name]\<rparr>)
                else w);
          w2 = log (LoadCall module_name f_name) w1
      in case load_source rt module_name f_name (files w2) of
           Inl e \<Rightarrow> (w2, Inl e)
         | Inr ns \<Rightarrow>
             (let compiled_nodes = \<lparr>mod_name = module_name, mod_file = f_name, namespace = ns\<rparr>;
                  w3 = w2\<lparr>sys_modules := (sys_modules w2)(module_name \<mapsto> compiled_nodes)\<rparr>
              in if include_source_map
                 then attach_source_map (debug rt) compiled_nodes source_map source w3
                 else (w3, Inr (compiled_nodes, source))))"

text \<open>
  Lines 100--137. Inside the \<^verbatim>\<open>with\<close> block (lines 108--118) the file is created,
  written, and the source map is computed; leaving the block closes the file, also
  when \<^verbatim>\<open>create_source_map\<close> raises.
\<close>

definition ast_to_object ::
  "('g, 'a, 's, 'v) renderer \<Rightarrow> ('g, 'a, 'v) runtime \<Rightarrow> ('g, 'a) node py_arg \<Rightarrow> string
     \<Rightarrow> bool \<Rightarrow> string option \<Rightarrow> bool \<Rightarrow> ('g, 'a, 'v) world
     \<Rightarrow> ('g, 'a, 'v) world \<times> (exn + 'v py_module \<times> string)" where
  "ast_to_object r rt nodes0 indentation include_source_map source_prefix delete_on_exit w =
     (let nodes = as_sequence nodes0 in
      case ast_to_source r nodes indentation of
        Inl e \<Rightarrow> (w, Inl e)
      | Inr source0 \<Rightarrow>
          (let source = with_prefix source_prefix source0 in
           case NamedTemporaryFile rt (files w) of
             Inl e \<Rightarrow> (w, Inl e)
           | Inr f_name \<Rightarrow>
               (let w1 = log (Created f_name) (w\<lparr>files := (files w)(f_name \<mapsto> [])\<rparr>);
                    module_name = module_name_of f_name;
                    w2 = log (Written f_name source) (w1\<lparr>files := (files w1)(f_name \<mapsto> source)\<rparr>);
                    indices = indices_of nodes
                in if include_source_map
                   then (case create_source_map rt nodes source f_name indices of
                           Inl e \<Rightarrow>
                             (log (Closed f_name)
                                (log (SourceMapCall nodes source f_name indices) w2),
                              Inl e)
                         | Inr sm \<Rightarrow>
                             load_and_attach rt module_name f_name include_source_map
                               delete_on_exit (Some sm) source
                               (log (Closed f_name)
                                  (log (SourceMapCall nodes source f_name indices) w2)))
                   else load_and_attach rt module_name f_name include_source_map
                          delete_on_exit None source (log (Closed f_name) w2))))"


subsection \<open>Notions for the statements\<close>

text \<open>A line is blank when \<^verbatim>\<open>l.rstrip()\<close> is the empty string, which is false in Python.\<close>

definition is_blank :: "string \<Rightarrow> bool" where
  "is_blank l \<longleftrightarrow> rstrip l = []"


text \<open>
  The nodes that an argument stands for, for the statements about them: the elements of
  a sequence, the node alone otherwise.
\<close>

fun elements :: "'n py_arg \<Rightarrow> 'n list" where
  "elements (Single n) = [n]"
| "elements (Sequence ns) = ns"


subsection \<open>Examples\<close>

text \<open>
  A renderer for the examples. A node is a pair of a number \<open>k\<close> and a line of text; visiting
  it appends \<open>k\<close> newlines and then the text to the result. It has no hidden state.
\<close>

definition example_renderer :: "(nat \<times> string, nat \<times> string, unit, string) renderer" where
  "example_renderer =
     \<lparr>gast_to_ast = (\<lambda>x. x),
      generator_init = (\<lambda>indentation. ()),
      visit = (\<lambda>(k, s) g. Inr (g\<lparr>result := result g @ [Text (replicate k newline), Text s]\<rparr>)),
      str_of = (\<lambda>v. v)\<rparr>"

text \<open>
  A runtime for the examples. Assertions are enabled. The temporary file is \<^verbatim>\<open>/tmp/tmpx.py\<close>; a file with a
  question mark in it does not load; loading binds the first word of every non-empty line
  to the line.
\<close>

definition example_runtime :: "(nat \<times> string, nat \<times> string, string) runtime" where
  "example_runtime =
     \<lparr>debug = True,
      NamedTemporaryFile = (\<lambda>fs. Inr ''/tmp/tmpx.py''),
      create_source_map = (\<lambda>nodes source f indices. Inr ''source map''),
      load_source = (\<lambda>module_name f fs.
        case fs f of
          None \<Rightarrow> Inl (Raised ''IOError'')
        | Some source \<Rightarrow>
            if CHR ''?'' \<in> set source then Inl (Raised ''SyntaxError'')
            else Inr (map_of (map (\<lambda>l. (takeWhile (\<lambda>c. c \<noteq> CHR '' '') l, l))
                                (filter (\<lambda>l. l \<noteq> []) (split_nl source)))))\<rparr>"

definition initial_world :: "(nat \<times> string, nat \<times> string, string) world" where
  "initial_world = \<lparr>files = Map.empty, atexit = [], sys_modules = Map.empty, trace = []\<rparr>"

section \<open>Properties\<close>

subsection \<open>Splitting and joining lines\<close>

lemma is_blank_iff: "is_blank l \<longleftrightarrow> (\<forall>c\<in>set l. isspace c)"
  by (simp add: is_blank_def rstrip_def)

lemma trim_loop_started: "acc \<noteq> [] \<Longrightarrow> trim_loop ls acc = acc @ ls"
  by (induction ls arbitrary: acc) auto

lemma trim_loop_dropWhile: "trim_loop ls [] = dropWhile is_blank ls"
  by (induction ls) (auto simp: is_blank_def trim_loop_started)

lemma split_nl_nonempty: "split_nl s \<noteq> []"
  by (induction s) (auto split: list.splits)

lemma join_split: "join_nl (split_nl s) = s"
proof (induction s)
  case Nil
  show ?case by simp
next
  case (Cons c cs)
  then show ?case
    using split_nl_nonempty[of cs]
    by (cases "split_nl cs"; cases "tl (split_nl cs)") auto
qed

lemma split_nl_no_newline: "l \<in> set (split_nl s) \<Longrightarrow> newline \<notin> set l"
  by (induction s arbitrary: l) (auto split: if_splits list.splits)

lemma split_nl_first_line:
  "newline \<notin> set l \<Longrightarrow> split_nl (l @ newline # s) = l # split_nl s"
  by (induction l) auto

lemma split_nl_line: "newline \<notin> set l \<Longrightarrow> split_nl l = [l]"
  by (induction l) auto

lemma split_join:
  "ls \<noteq> [] \<Longrightarrow> \<forall>l\<in>set ls. newline \<notin> set l \<Longrightarrow> split_nl (join_nl ls) = ls"
  by (induction ls rule: join_nl.induct) (auto simp: split_nl_line split_nl_first_line)

subsection \<open>The steps of \<^verbatim>\<open>ast_to_object\<close>\<close>


lemma as_sequence_idem: "as_sequence (as_sequence nodes) = as_sequence nodes"
  by (cases nodes) simp_all

lemma ast_to_source_as_sequence:
  "ast_to_source r (as_sequence nodes) ind = ast_to_source r nodes ind"
  by (simp add: ast_to_source_def as_sequence_idem)

lemma iterate_as_sequence: "iterate (as_sequence nodes) = Inr (elements nodes)"
  by (cases nodes) simp_all

lemma elements_as_sequence: "elements (as_sequence nodes) = elements nodes"
  by (cases nodes) simp_all

text \<open>The function once the rendering and the allocation of the file have succeeded.\<close>

lemma ast_to_object_unfold:
  assumes "ast_to_source r nodes ind = Inr source0"
    and "NamedTemporaryFile rt (files w) = Inr f"
  shows "ast_to_object r rt nodes ind ism pre doe w =
    (let source = with_prefix pre source0;
         w2 = w\<lparr>files := (files w)(f \<mapsto> source),
                trace := trace w @ [Created f, Written f source]\<rparr>;
         call = SourceMapCall (as_sequence nodes) source f (indices_of (as_sequence nodes))
     in if ism
        then (case create_source_map rt (as_sequence nodes) source f (indices_of (as_sequence nodes)) of
                Inl e \<Rightarrow> (w2\<lparr>trace := trace w2 @ [call, Closed f]\<rparr>, Inl e)
              | Inr sm \<Rightarrow> load_and_attach rt (module_name_of f) f ism doe (Some sm) source
                           (w2\<lparr>trace := trace w2 @ [call, Closed f]\<rparr>))
        else load_and_attach rt (module_name_of f) f ism doe None source
               (w2\<lparr>trace := trace w2 @ [Closed f]\<rparr>))"
  using assms
  by (simp add: ast_to_object_def ast_to_source_as_sequence as_sequence_idem Let_def log_def
           split: sum.splits)

subsection \<open>Index lists and stripped text\<close>





lemma strip_leading_blank_lines_eq:
  "strip_leading_blank_lines code = join_nl (dropWhile is_blank (split_nl code))"
  by (simp add: strip_leading_blank_lines_def trim_loop_dropWhile)

lemma join_nl_Cons: "join_nl (l # ls) = l @ (if ls = [] then [] else newline # join_nl ls)"
  by (cases ls) simp_all


text \<open>The check of lines 132--134 with assertions enabled, and line 135 without them.\<close>

lemma collision_raises_with_assertions:
  assumes "ast_to_source r nodes indentation = Inr source0"
    and "NamedTemporaryFile rt (files w) = Inr f"
    and "create_source_map rt (as_sequence nodes) (with_prefix source_prefix source0) f
           (indices_of (as_sequence nodes)) = Inr sm"
    and "load_source rt (module_name_of f) f ((files w)(f \<mapsto> with_prefix source_prefix source0))
           = Inr ns"
    and "ns source_map_name \<noteq> None"
    and "debug rt"
  shows "snd (ast_to_object r rt nodes indentation True source_prefix delete_on_exit w) =
       Inl (AssertionError
              (assertion_message \<lparr>mod_name = module_name_of f, mod_file = f, namespace = ns\<rparr>))
     \<and> sys_modules (fst (ast_to_object r rt nodes indentation True source_prefix delete_on_exit w))
         (module_name_of f)
       = Some \<lparr>mod_name = module_name_of f, mod_file = f, namespace = ns\<rparr>"
  using assms
  unfolding ast_to_object_unfold[OF assms(1,2)]
  by (simp add: Let_def load_and_attach_def attach_source_map_def log_def)

lemma collision_overwrites_when_optimised:
  assumes "ast_to_source r nodes indentation = Inr source0"
    and "NamedTemporaryFile rt (files w) = Inr f"
    and "create_source_map rt (as_sequence nodes) (with_prefix source_prefix source0) f
           (indices_of (as_sequence nodes)) = Inr sm"
    and "load_source rt (module_name_of f) f ((files w)(f \<mapsto> with_prefix source_prefix source0))
           = Inr ns"
    and "\<not> debug rt"
  shows "snd (ast_to_object r rt nodes indentation True source_prefix delete_on_exit w) =
       Inr (\<lparr>mod_name = module_name_of f, mod_file = f,
             namespace = ns(source_map_name \<mapsto> sm)\<rparr>,
            with_prefix source_prefix source0)"
  using assms
  unfolding ast_to_object_unfold[OF assms(1,2)]
  by (simp add: Let_def load_and_attach_def attach_source_map_def log_def)

subsection \<open>The examples, evaluated\<close>

lemma example_tmp:
  "NamedTemporaryFile example_runtime (files initial_world) = Inr ''/tmp/tmpx.py''"
  by (simp add: example_runtime_def)

lemma example_pass:
  "ast_to_source example_renderer (Single (Ast (1, ''pass''))) ''  '' = Inr (''pass'' @ [newline])"
  by (simp add: ast_to_source_def Let_def example_renderer_def new_generator_def append_newline_def
        code_of_def strip_leading_blank_lines_def newline_def rstrip_def isspace_def)

lemmas ex_defs = example_renderer_def example_runtime_def initial_world_def

lemmas src_defs = ast_to_source_def Let_def new_generator_def append_newline_def
        code_of_def strip_leading_blank_lines_def newline_def rstrip_def isspace_def eval_nat_numeral

lemmas obj_defs = Let_def load_and_attach_def attach_source_map_def log_def module_name_of_def
        basename_def newline_def source_map_name_def py_range_def assertion_message_def module_repr_def

lemma example_collision:
  "ast_to_source example_renderer (Single (Ast (1, ''ag_source_map__ = 1''))) ''  ''
     = Inr (''ag_source_map__ = 1'' @ [newline])"
  by (simp add: example_renderer_def src_defs)




section \<open>The claims\<close>

text \<open>
  C1. When the namespace of the loaded module already has the key \<^verbatim>\<open>ag_source_map__\<close>, the
  call with \<^verbatim>\<open>include_source_map=True\<close> is to fail with an error that names the module and
  the key, and the binding is not to be overwritten. The guard of lines 132--134 is an
  \<^verbatim>\<open>assert\<close>: with assertions enabled the call raises \<^verbatim>\<open>AssertionError\<close> with that message;
  under \<^verbatim>\<open>-O\<close> the guard is compiled out, the call returns normally and line 135 has
  replaced the binding that loading made by the source map. The docstring (lines 96--98)
  promises a \<^verbatim>\<open>ValueError\<close> in this case. The theorem evaluates the function on a module
  that binds \<^verbatim>\<open>ag_source_map__\<close>, in both modes.
\<close>

theorem collision_overwrites_without_assertions:
  "load_source (example_runtime\<lparr>debug := False\<rparr>) ''tmpx'' ''/tmp/tmpx.py''
       ((files initial_world)(''/tmp/tmpx.py'' \<mapsto> ''ag_source_map__ = 1'' @ [newline]))
     = Inr [''ag_source_map__'' \<mapsto> ''ag_source_map__ = 1'']
   \<and> snd (ast_to_object example_renderer (example_runtime\<lparr>debug := False\<rparr>)
          (Single (Ast (1, ''ag_source_map__ = 1''))) ''  '' True None True initial_world)
     = Inr (\<lparr>mod_name = ''tmpx'', mod_file = ''/tmp/tmpx.py'',
             namespace = [''ag_source_map__'' \<mapsto> ''source map'']\<rparr>,
            ''ag_source_map__ = 1'' @ [newline])
   \<and> sys_modules (fst (ast_to_object example_renderer (example_runtime\<lparr>debug := False\<rparr>)
          (Single (Ast (1, ''ag_source_map__ = 1''))) ''  '' True None True initial_world)) ''tmpx''
     = Some \<lparr>mod_name = ''tmpx'', mod_file = ''/tmp/tmpx.py'',
             namespace = [''ag_source_map__'' \<mapsto> ''source map'']\<rparr>
   \<and> snd (ast_to_object example_renderer example_runtime
          (Single (Ast (1, ''ag_source_map__ = 1''))) ''  '' True None True initial_world)
     = Inl (AssertionError
         (''cannot convert <module '' @ [CHR 0x27] @ ''tmpx'' @ [CHR 0x27] @ '' from ''
            @ [CHR 0x27] @ ''/tmp/tmpx.py'' @ [CHR 0x27] @ ''> because is has namespace attribute ''
            @ [CHR 0x22] @ ''ag_source_map__'' @ [CHR 0x22]
            @ '', which is reserved for AutoGraph.''))"
proof -
  have tmp: "NamedTemporaryFile (example_runtime\<lparr>debug := False\<rparr>) (files initial_world)
               = Inr ''/tmp/tmpx.py''"
    by (simp add: example_runtime_def)
  have ld: "load_source (example_runtime\<lparr>debug := False\<rparr>) ''tmpx'' ''/tmp/tmpx.py''
       ((files initial_world)(''/tmp/tmpx.py'' \<mapsto> ''ag_source_map__ = 1'' @ [newline]))
     = Inr [''ag_source_map__'' \<mapsto> ''ag_source_map__ = 1'']"
    by (simp add: example_runtime_def newline_def)
  have optimised:
    "snd (ast_to_object example_renderer (example_runtime\<lparr>debug := False\<rparr>)
          (Single (Ast (1, ''ag_source_map__ = 1''))) ''  '' True None True initial_world)
     = Inr (\<lparr>mod_name = ''tmpx'', mod_file = ''/tmp/tmpx.py'',
             namespace = [''ag_source_map__'' \<mapsto> ''source map'']\<rparr>,
            ''ag_source_map__ = 1'' @ [newline])"
    unfolding ast_to_object_unfold[OF example_collision tmp]
    by (simp add: ex_defs obj_defs)
  have stored:
    "sys_modules (fst (ast_to_object example_renderer (example_runtime\<lparr>debug := False\<rparr>)
          (Single (Ast (1, ''ag_source_map__ = 1''))) ''  '' True None True initial_world)) ''tmpx''
     = Some \<lparr>mod_name = ''tmpx'', mod_file = ''/tmp/tmpx.py'',
             namespace = [''ag_source_map__'' \<mapsto> ''source map'']\<rparr>"
    unfolding ast_to_object_unfold[OF example_collision tmp]
    by (simp add: ex_defs obj_defs)
  have checked:
    "snd (ast_to_object example_renderer example_runtime
          (Single (Ast (1, ''ag_source_map__ = 1''))) ''  '' True None True initial_world)
     = Inl (AssertionError
         (''cannot convert <module '' @ [CHR 0x27] @ ''tmpx'' @ [CHR 0x27] @ '' from ''
            @ [CHR 0x27] @ ''/tmp/tmpx.py'' @ [CHR 0x27] @ ''> because is has namespace attribute ''
            @ [CHR 0x22] @ ''ag_source_map__'' @ [CHR 0x22]
            @ '', which is reserved for AutoGraph.''))"
    unfolding ast_to_object_unfold[OF example_collision example_tmp]
    by (simp add: ex_defs obj_defs)
  from ld optimised stored checked show ?thesis by blast
qed

text \<open>
  C2. When the accumulated text begins with blank lines (empty or of whitespace only)
  followed by a first line \<open>L\<close> that is not blank, \<^verbatim>\<open>ast_to_source\<close> returns the text from
  \<open>L\<close> on: its lines are \<open>L\<close> and all the lines after it, the blank ones among them
  included, and its first characters are \<open>L\<close>.
\<close>

theorem leading_blank_lines_stripped:
  assumes "visit_nodes r (elements (as_sequence node)) (new_generator r indentation) = Inr generator"
    and "split_nl (code_of r generator) = blanks @ L # rest"
    and "\<forall>b\<in>set blanks. \<forall>c\<in>set b. isspace c"
    and "\<exists>c\<in>set L. \<not> isspace c"
  shows "ast_to_source r node indentation = Inr (join_nl (L # rest))
     \<and> split_nl (join_nl (L # rest)) = L # rest
     \<and> take (length L) (join_nl (L # rest)) = L"
proof -
  from assms(3) have "\<forall>b\<in>set blanks. is_blank b"
    by (simp add: is_blank_iff)
  moreover from assms(4) have "\<not> is_blank L"
    by (simp add: is_blank_iff)
  ultimately have "dropWhile is_blank (blanks @ L # rest) = L # rest"
    by (simp add: dropWhile_append3)
  with assms(1,2) have 1: "ast_to_source r node indentation = Inr (join_nl (L # rest))"
    by (simp add: ast_to_source_def Let_def iterate_as_sequence elements_as_sequence
          strip_leading_blank_lines_eq)
  have "\<forall>l\<in>set (L # rest). newline \<notin> set l"
    using split_nl_no_newline[of _ "code_of r generator"] assms(2) by simp
  then have 2: "split_nl (join_nl (L # rest)) = L # rest"
    by (intro split_join) simp_all
  have 3: "take (length L) (join_nl (L # rest)) = L"
    by (simp add: join_nl_Cons)
  from 1 2 3 show ?thesis by simp
qed

theorem leading_blank_lines_stripped_witness:
  "visit_nodes example_renderer
      (elements (as_sequence (Sequence [Ast (1, ''  ''), Ast (1, ''x = 1''), Gast (2, ''y = 2'')])))
      (new_generator example_renderer ''  '')
     = Inr \<lparr>hidden = (),
            result = [Text [newline], Text ''  '', Text [newline],
                      Text [newline], Text ''x = 1'', Text [newline],
                      Text [newline, newline], Text ''y = 2'', Text [newline]]\<rparr>
   \<and> split_nl (code_of example_renderer
        \<lparr>hidden = (),
         result = [Text [newline], Text ''  '', Text [newline],
                   Text [newline], Text ''x = 1'', Text [newline],
                   Text [newline, newline], Text ''y = 2'', Text [newline]]\<rparr>)
     = ['''', ''  '', ''''] @ ''x = 1'' # ['''', '''', ''y = 2'', '''']
   \<and> list_all (list_all isspace) ['''', ''  '', '''']
   \<and> (\<exists>c\<in>set ''x = 1''. \<not> isspace c)
   \<and> ast_to_source example_renderer
        (Sequence [Ast (1, ''  ''), Ast (1, ''x = 1''), Gast (2, ''y = 2'')]) ''  ''
     = Inr (''x = 1'' @ [newline, newline, newline] @ ''y = 2'' @ [newline])
   \<and> split_nl (''x = 1'' @ [newline, newline, newline] @ ''y = 2'' @ [newline])
     = [''x = 1'', '''', '''', ''y = 2'', '''']
   \<and> take 5 (''x = 1'' @ [newline, newline, newline] @ ''y = 2'' @ [newline]) = ''x = 1''"
proof -
  have run: "visit_nodes example_renderer
      (elements (as_sequence (Sequence [Ast (1, ''  ''), Ast (1, ''x = 1''), Gast (2, ''y = 2'')])))
      (new_generator example_renderer ''  '')
     = Inr \<lparr>hidden = (),
            result = [Text [newline], Text ''  '', Text [newline],
                      Text [newline], Text ''x = 1'', Text [newline],
                      Text [newline, newline], Text ''y = 2'', Text [newline]]\<rparr>"
    by (simp add: example_renderer_def new_generator_def append_newline_def eval_nat_numeral)
  have lines: "split_nl (code_of example_renderer
        \<lparr>hidden = (),
         result = [Text [newline], Text ''  '', Text [newline],
                   Text [newline], Text ''x = 1'', Text [newline],
                   Text [newline, newline], Text ''y = 2'', Text [newline]]\<rparr>)
     = ['''', ''  '', ''''] @ ''x = 1'' # ['''', '''', ''y = 2'', '''']"
    by (simp add: code_of_def newline_def)
  have blanks: "\<forall>b\<in>set ['''', ''  '', '''']. \<forall>c\<in>set b. isspace c"
    by (simp add: isspace_def)
  have first: "\<exists>c\<in>set ''x = 1''. \<not> isspace c"
    by (simp add: isspace_def)
  have joined: "join_nl (''x = 1'' # ['''', '''', ''y = 2'', ''''])
     = ''x = 1'' @ [newline, newline, newline] @ ''y = 2'' @ [newline]"
    by simp
  have len: "length ''x = 1'' = 5"
    by simp
  note claim = leading_blank_lines_stripped[OF run lines blanks first, unfolded joined len]
  from claim run lines blanks first show ?thesis
    by (simp add: list_all_iff)
qed









text \<open>
  C6, as amended. For the sequence \<open>[A, B]\<close>, when the generator emits the fragments
  \<open>fa\<close> for \<open>A\<close> and then, after the newline that line 56 appends, the fragments \<open>fb\<close> for
  \<open>B\<close>, \<^verbatim>\<open>ast_to_source\<close> returns the text of \<open>fa\<close>, a newline, the text of \<open>fb\<close> and a
  final newline, in this order, without the leading blank lines of the whole.
\<close>

theorem sequence_of_two_nodes:
  assumes "visit r (to_ast r A) (new_generator r indentation) = Inr g1"
    and "result g1 = fa"
    and "visit r (to_ast r B) (append_newline g1) = Inr g2"
    and "result g2 = fa @ [Text [newline]] @ fb"
  shows "ast_to_source r (Sequence [A, B]) indentation =
     Inr (strip_leading_blank_lines
            (concat (map (py_str r) fa) @ [newline] @ concat (map (py_str r) fb) @ [newline]))"
  using assms by (simp add: ast_to_source_def code_of_def append_newline_def)

theorem sequence_of_two_nodes_witness:
  "visit example_renderer (to_ast example_renderer (Ast (1, ''x = 1'')))
       (new_generator example_renderer ''  '')
     = Inr \<lparr>hidden = (), result = [Text [newline], Text ''x = 1'']\<rparr>
   \<and> visit example_renderer (to_ast example_renderer (Gast (3, ''y = 2'')))
       (append_newline \<lparr>hidden = (), result = [Text [newline], Text ''x = 1'']\<rparr>)
     = Inr \<lparr>hidden = (),
            result = [Text [newline], Text ''x = 1''] @ [Text [newline]]
                       @ [Text [newline, newline, newline], Text ''y = 2'']\<rparr>
   \<and> ast_to_source example_renderer (Sequence [Ast (1, ''x = 1''), Gast (3, ''y = 2'')]) ''  ''
     = Inr (strip_leading_blank_lines
              (([newline] @ ''x = 1'') @ [newline]
                 @ ([newline, newline, newline] @ ''y = 2'') @ [newline]))
   \<and> strip_leading_blank_lines
        (([newline] @ ''x = 1'') @ [newline] @ ([newline, newline, newline] @ ''y = 2'') @ [newline])
     = ''x = 1'' @ [newline, newline, newline, newline] @ ''y = 2'' @ [newline]"
proof -
  have a: "visit example_renderer (to_ast example_renderer (Ast (1, ''x = 1'')))
       (new_generator example_renderer ''  '')
     = Inr \<lparr>hidden = (), result = [Text [newline], Text ''x = 1'']\<rparr>"
    by (simp add: example_renderer_def new_generator_def)
  have fa: "result \<lparr>hidden = (), result = [Text [newline], Text ''x = 1'' :: string fragment]\<rparr>
     = [Text [newline], Text ''x = 1'']"
    by simp
  have b: "visit example_renderer (to_ast example_renderer (Gast (3, ''y = 2'')))
       (append_newline \<lparr>hidden = (), result = [Text [newline], Text ''x = 1'']\<rparr>)
     = Inr \<lparr>hidden = (),
            result = [Text [newline], Text ''x = 1''] @ [Text [newline]]
                       @ [Text [newline, newline, newline], Text ''y = 2'']\<rparr>"
    by (simp add: example_renderer_def append_newline_def eval_nat_numeral)
  have fb: "result \<lparr>hidden = (),
            result = [Text [newline], Text ''x = 1''] @ [Text [newline]]
                       @ [Text [newline, newline, newline], Text ''y = 2'' :: string fragment]\<rparr>
     = [Text [newline], Text ''x = 1''] @ [Text [newline]]
         @ [Text [newline, newline, newline], Text ''y = 2'']"
    by simp
  have s: "strip_leading_blank_lines
        (([newline] @ ''x = 1'') @ [newline] @ ([newline, newline, newline] @ ''y = 2'') @ [newline])
     = ''x = 1'' @ [newline, newline, newline, newline] @ ''y = 2'' @ [newline]"
    by (simp add: strip_leading_blank_lines_def newline_def rstrip_def isspace_def)
  from sequence_of_two_nodes[OF a fa b fb] a b s show ?thesis
    by simp
qed

text \<open>
  The claim as stated has neither the final newline nor the stripping. The text for
  \<open>[A, B]\<close> is not the text for \<open>A\<close>, a newline and the text for \<open>B\<close>, whether the text
  for a node is what \<^verbatim>\<open>ast_to_source\<close> returns for it or what the generator emits for it.
\<close>

theorem sequence_of_two_nodes_counterexample:
  "ast_to_source example_renderer (Sequence [Ast (1, ''x = 1''), Gast (3, ''y = 2'')]) ''  ''
     = Inr (''x = 1'' @ [newline, newline, newline, newline] @ ''y = 2'' @ [newline])
   \<and> ast_to_source example_renderer (Single (Ast (1, ''x = 1''))) ''  ''
     = Inr (''x = 1'' @ [newline])
   \<and> ast_to_source example_renderer (Single (Gast (3, ''y = 2''))) ''  ''
     = Inr (''y = 2'' @ [newline])
   \<and> ''x = 1'' @ [newline, newline, newline, newline] @ ''y = 2'' @ [newline]
     \<noteq> (''x = 1'' @ [newline]) @ [newline] @ (''y = 2'' @ [newline])
   \<and> map_sum id (code_of example_renderer)
       (visit example_renderer (to_ast example_renderer (Ast (1, ''x = 1'')))
          (new_generator example_renderer ''  ''))
     = Inr ([newline] @ ''x = 1'')
   \<and> map_sum id (code_of example_renderer)
       (visit example_renderer (to_ast example_renderer (Gast (3, ''y = 2'')))
          (new_generator example_renderer ''  ''))
     = Inr ([newline, newline, newline] @ ''y = 2'')
   \<and> ''x = 1'' @ [newline, newline, newline, newline] @ ''y = 2'' @ [newline]
     \<noteq> ([newline] @ ''x = 1'') @ [newline] @ ([newline, newline, newline] @ ''y = 2'')"
  by (simp add: example_renderer_def src_defs)

text \<open>
  C7. A single node is treated as the sequence of that one node, by \<^verbatim>\<open>ast_to_source\<close>
  and by \<^verbatim>\<open>ast_to_object\<close>: the results are the same for every indentation and every
  other argument. For \<^verbatim>\<open>ast_to_source\<close> the result is that of visiting the node on a new
  generator and appending one newline.
\<close>

theorem single_node_is_one_element_sequence:
  "ast_to_source r (Single n) indentation = ast_to_source r (Sequence [n]) indentation
   \<and> ast_to_source r (Single n) indentation
     = (case visit r (to_ast r n) (new_generator r indentation) of
          Inl e \<Rightarrow> Inl e
        | Inr g \<Rightarrow> Inr (strip_leading_blank_lines (code_of r (append_newline g))))
   \<and> ast_to_object r rt (Single n) indentation include_source_map source_prefix delete_on_exit w
     = ast_to_object r rt (Sequence [n]) indentation include_source_map source_prefix
         delete_on_exit w"
  by (simp add: ast_to_source_def ast_to_object_def Let_def split: sum.splits)

theorem single_node_is_one_element_sequence_witness:
  "ast_to_source example_renderer (Single (Ast (1, ''pass''))) ''  '' = Inr (''pass'' @ [newline])
   \<and> ast_to_source example_renderer (Sequence [Ast (1, ''pass'')]) ''  ''
     = Inr (''pass'' @ [newline])
   \<and> snd (ast_to_object example_renderer example_runtime (Sequence [Ast (1, ''pass'')])
          ''  '' True None True initial_world)
     = Inr (\<lparr>mod_name = ''tmpx'', mod_file = ''/tmp/tmpx.py'',
             namespace = [''pass'' \<mapsto> ''pass'', ''ag_source_map__'' \<mapsto> ''source map'']\<rparr>,
            ''pass'' @ [newline])
   \<and> trace (fst (ast_to_object example_renderer example_runtime (Sequence [Ast (1, ''pass'')])
          ''  '' True None True initial_world))
     = [Created ''/tmp/tmpx.py'', Written ''/tmp/tmpx.py'' (''pass'' @ [newline]),
        SourceMapCall (Sequence [Ast (1, ''pass'')]) (''pass'' @ [newline]) ''/tmp/tmpx.py'' [- 1],
        Closed ''/tmp/tmpx.py'', AtexitRegistered ''/tmp/tmpx.py'',
        LoadCall ''tmpx'' ''/tmp/tmpx.py'', Attached ''tmpx'' ''ag_source_map__'']"
proof -
  note claim = single_node_is_one_element_sequence[where r = example_renderer
      and n = "Ast (1, ''pass'')" and indentation = "''  ''"
      and rt = example_runtime and include_source_map = True and source_prefix = None
      and delete_on_exit = True and w = initial_world]
  have single: "snd (ast_to_object example_renderer example_runtime (Single (Ast (1, ''pass'')))
          ''  '' True None True initial_world)
     = Inr (\<lparr>mod_name = ''tmpx'', mod_file = ''/tmp/tmpx.py'',
             namespace = [''pass'' \<mapsto> ''pass'', ''ag_source_map__'' \<mapsto> ''source map'']\<rparr>,
            ''pass'' @ [newline])"
    unfolding ast_to_object_unfold[OF example_pass example_tmp]
    by (simp add: ex_defs obj_defs)
  have events: "trace (fst (ast_to_object example_renderer example_runtime
          (Single (Ast (1, ''pass''))) ''  '' True None True initial_world))
     = [Created ''/tmp/tmpx.py'', Written ''/tmp/tmpx.py'' (''pass'' @ [newline]),
        SourceMapCall (Sequence [Ast (1, ''pass'')]) (''pass'' @ [newline]) ''/tmp/tmpx.py'' [- 1],
        Closed ''/tmp/tmpx.py'', AtexitRegistered ''/tmp/tmpx.py'',
        LoadCall ''tmpx'' ''/tmp/tmpx.py'', Attached ''tmpx'' ''ag_source_map__'']"
    unfolding ast_to_object_unfold[OF example_pass example_tmp]
    by (simp add: ex_defs obj_defs)
  from claim example_pass single events show ?thesis
    by metis
qed

text \<open>
  C9. When the key \<^verbatim>\<open>ag_source_map__\<close> is absent from the namespace of the loaded module,
  the call with \<^verbatim>\<open>include_source_map=True\<close> returns the module with that namespace and
  one more binding, of the key to the source map; every other key is bound as before.
\<close>

theorem attachment_adds_one_binding:
  assumes "ast_to_source r nodes indentation = Inr source0"
    and "NamedTemporaryFile rt (files w) = Inr f"
    and "create_source_map rt (as_sequence nodes) (with_prefix source_prefix source0) f
           (indices_of (as_sequence nodes)) = Inr sm"
    and "load_source rt (module_name_of f) f ((files w)(f \<mapsto> with_prefix source_prefix source0))
           = Inr ns"
    and "ns ''ag_source_map__'' = None"
  shows "snd (ast_to_object r rt nodes indentation True source_prefix delete_on_exit w) =
       Inr (\<lparr>mod_name = module_name_of f, mod_file = f,
             namespace = ns(''ag_source_map__'' \<mapsto> sm)\<rparr>,
            with_prefix source_prefix source0)
     \<and> sys_modules (fst (ast_to_object r rt nodes indentation True source_prefix delete_on_exit w))
         (module_name_of f)
       = Some \<lparr>mod_name = module_name_of f, mod_file = f,
               namespace = ns(''ag_source_map__'' \<mapsto> sm)\<rparr>
     \<and> dom (ns(''ag_source_map__'' \<mapsto> sm)) - dom ns = {''ag_source_map__''}
     \<and> (ns(''ag_source_map__'' \<mapsto> sm)) ''ag_source_map__'' = Some sm
     \<and> (\<forall>k. k \<noteq> ''ag_source_map__'' \<longrightarrow> (ns(''ag_source_map__'' \<mapsto> sm)) k = ns k)"
  using assms
  unfolding ast_to_object_unfold[OF assms(1,2)]
  by (auto simp add: Let_def load_and_attach_def attach_source_map_def log_def source_map_name_def)

theorem attachment_adds_one_binding_witness:
  "load_source example_runtime ''tmpx'' ''/tmp/tmpx.py''
       ((files initial_world)(''/tmp/tmpx.py'' \<mapsto> ''pass'' @ [newline]))
     = Inr [''pass'' \<mapsto> ''pass'']
   \<and> [''pass'' \<mapsto> ''pass''] ''ag_source_map__'' = None
   \<and> snd (ast_to_object example_renderer example_runtime (Single (Ast (1, ''pass'')))
          ''  '' True None True initial_world)
     = Inr (\<lparr>mod_name = ''tmpx'', mod_file = ''/tmp/tmpx.py'',
             namespace = [''pass'' \<mapsto> ''pass'', ''ag_source_map__'' \<mapsto> ''source map'']\<rparr>,
            ''pass'' @ [newline])
   \<and> sys_modules (fst (ast_to_object example_renderer example_runtime
          (Single (Ast (1, ''pass''))) ''  '' True None True initial_world)) ''tmpx''
     = Some \<lparr>mod_name = ''tmpx'', mod_file = ''/tmp/tmpx.py'',
             namespace = [''pass'' \<mapsto> ''pass'', ''ag_source_map__'' \<mapsto> ''source map'']\<rparr>
   \<and> dom [''pass'' \<mapsto> ''pass'', ''ag_source_map__'' \<mapsto> ''source map''] - dom [''pass'' \<mapsto> ''pass'']
     = {''ag_source_map__''}
   \<and> [''pass'' \<mapsto> ''pass'', ''ag_source_map__'' \<mapsto> ''source map''] ''pass'' = Some ''pass''"
proof -
  have mn: "module_name_of ''/tmp/tmpx.py'' = ''tmpx''"
    by (simp add: module_name_of_def basename_def)
  have sm: "create_source_map example_runtime (as_sequence (Single (Ast (1, ''pass''))))
      (with_prefix None (''pass'' @ [newline])) ''/tmp/tmpx.py''
      (indices_of (as_sequence (Single (Ast (1, ''pass''))))) = Inr ''source map''"
    by (simp add: example_runtime_def)
  have ld: "load_source example_runtime (module_name_of ''/tmp/tmpx.py'') ''/tmp/tmpx.py''
      ((files initial_world)(''/tmp/tmpx.py'' \<mapsto> with_prefix None (''pass'' @ [newline])))
      = Inr [''pass'' \<mapsto> ''pass'']"
    by (simp add: example_runtime_def newline_def)
  have key: "[''pass'' \<mapsto> ''pass''] ''ag_source_map__'' = None"
    by simp
  have lk: "[''pass'' \<mapsto> ''pass'', ''ag_source_map__'' \<mapsto> ''source map''] ''pass'' = Some ''pass''"
    by simp
  note claim = attachment_adds_one_binding[OF example_pass example_tmp sm ld key, of True,
      unfolded mn with_prefix.simps]
  from claim ld[unfolded mn with_prefix.simps] key lk show ?thesis by blast
qed



end
